theory Spec2Isabelle
  imports Main
begin

section \<open>The identity group resource of the Vault provider\<close>

text \<open>
  A shallow embedding of \<^verbatim>\<open>vault/resource_identity_group.go\<close>. The five handlers
  (\<^verbatim>\<open>identityGroupCreate\<close>, \<^verbatim>\<open>identityGroupUpdate\<close>, \<^verbatim>\<open>identityGroupRead\<close>,
  \<^verbatim>\<open>identityGroupDelete\<close>, \<^verbatim>\<open>identityGroupExists\<close>) mutate a
  \<^verbatim>\<open>*schema.ResourceData\<close> and talk to Vault through \<^verbatim>\<open>client.Logical()\<close>.
  Both effects are explicit here: a handler takes the resource data and the world
  (the remote store and the log of the calls issued so far) and returns its Go result
  together with the updated resource data and world. Logging (\<^verbatim>\<open>log.Printf\<close>) is left out.
\<close>

subsection \<open>Dynamic values\<close>

text \<open>
  Go's \<^verbatim>\<open>interface{}\<close> as far as this resource meets it: \<^verbatim>\<open>nil\<close>, strings, lists,
  string-keyed maps, numbers and booleans. A nested map is kept as an association list.
\<close>

datatype val =
    VNil
  | VStr string
  | VList "val list"
  | VMap "(string \<times> val) list"
  | VNum int
  | VBool bool

text \<open>\<^verbatim>\<open>map[string]interface{}\<close>: the write payload and the \<^verbatim>\<open>Data\<close> of a response.\<close>

type_synonym data = "string \<rightharpoonup> val"

text \<open>Indexing a Go map, \<^verbatim>\<open>m[k]\<close>: a missing key yields \<^verbatim>\<open>nil\<close>.\<close>

definition index :: "data \<Rightarrow> string \<Rightarrow> val" where
  "index m k = (case m k of None \<Rightarrow> VNil | Some v \<Rightarrow> v)"

text \<open>\<^verbatim>\<open>api.Secret\<close>; the handlers use its \<^verbatim>\<open>Data\<close> only.\<close>

record Secret =
  Data :: data

subsection \<open>Errors and runtime faults\<close>

text \<open>An error coming back from the Vault client, with its message.\<close>

datatype api_error = ApiError string

text \<open>
  An error built by \<^verbatim>\<open>fmt.Errorf\<close> is kept unrendered: the format string and the
  arguments it is given, \<^verbatim>\<open>%q\<close> arguments as \<open>Q\<close> and \<^verbatim>\<open>%s\<close> arguments (here always
  the client's error) as \<open>S\<close>.
\<close>

datatype fmt_arg = Q string | S api_error

datatype error = Errorf string "fmt_arg list"

text \<open>The two ways a handler can panic.\<close>

datatype fault = NilPointerDereference | TypeAssertion

datatype 'a result = Return 'a | Panic fault

text \<open>The type assertion \<^verbatim>\<open>v.(string)\<close>.\<close>

definition assert_string :: "val \<Rightarrow> string result" where
  "assert_string v = (case v of VStr s \<Rightarrow> Return s | _ \<Rightarrow> Panic TypeAssertion)"

subsection \<open>The schema and the resource data\<close>

datatype ValueType = TypeString | TypeMap | TypeList

text \<open>The \<^verbatim>\<open>Schema\<close> map of \<^verbatim>\<open>identityGroupResource\<close>: each attribute and its type.\<close>

definition Schema :: "string \<rightharpoonup> ValueType" where
  "Schema = [''name'' \<mapsto> TypeString,
             ''type'' \<mapsto> TypeString,
             ''metadata'' \<mapsto> TypeMap,
             ''policies'' \<mapsto> TypeList,
             ''member_group_ids'' \<mapsto> TypeList,
             ''member_entity_ids'' \<mapsto> TypeList,
             ''id'' \<mapsto> TypeString]"

text \<open>The zero value of a schema type.\<close>

fun Zero :: "ValueType \<Rightarrow> val" where
  "Zero TypeString = VStr []"
| "Zero TypeMap = VMap []"
| "Zero TypeList = VList []"

text \<open>
  \<^verbatim>\<open>schema.ResourceData\<close> belongs to the Terraform SDK, not to this repository. It is
  modelled as the store the handlers see through its methods: the resource id
  (\<^verbatim>\<open>d.Id()\<close>, \<^verbatim>\<open>d.SetId\<close>) and one value per attribute, \<open>VNil\<close> for an attribute that
  holds nothing. Defaults of the schema are applied by the SDK before a handler runs.
\<close>

record ResourceData =
  rid :: string
  attrs :: "string \<Rightarrow> val"

definition d_Id :: "ResourceData \<Rightarrow> string" where
  "d_Id d = rid d"

definition d_SetId :: "ResourceData \<Rightarrow> string \<Rightarrow> ResourceData" where
  "d_SetId d v = d\<lparr>rid := v\<rparr>"

text \<open>\<^verbatim>\<open>d.Get(k)\<close>: the attribute, or the zero value of its type when it holds nothing.\<close>

definition d_Get :: "ResourceData \<Rightarrow> string \<Rightarrow> val" where
  "d_Get d k =
     (case Schema k of
        None \<Rightarrow> VNil
      | Some t \<Rightarrow> (if attrs d k = VNil then Zero t else attrs d k))"

text \<open>\<^verbatim>\<open>d.GetOk(k)\<close>: the value, and whether it is set to something other than the zero value.\<close>

definition d_GetOk :: "ResourceData \<Rightarrow> string \<Rightarrow> val \<times> bool" where
  "d_GetOk d k =
     (case Schema k of
        None \<Rightarrow> (VNil, False)
      | Some t \<Rightarrow> (d_Get d k, d_Get d k \<noteq> Zero t))"

text \<open>\<^verbatim>\<open>d.Set(k, v)\<close>: the attribute now holds what it is given, \<^verbatim>\<open>nil\<close> included.\<close>

definition d_Set :: "ResourceData \<Rightarrow> string \<Rightarrow> val \<Rightarrow> ResourceData" where
  "d_Set d k v = d\<lparr>attrs := (attrs d)(k := v)\<rparr>"

subsection \<open>The Vault client\<close>

text \<open>
  \<^verbatim>\<open>client.Logical()\<close> over a remote store of any type \<open>'s\<close>: each operation answers with
  an error or a response that may be \<^verbatim>\<open>nil\<close>, and may change the store.
\<close>

type_synonym response = "api_error + Secret option"

record 's Client =
  Read :: "string \<Rightarrow> 's \<Rightarrow> response \<times> 's"
  Write :: "string \<Rightarrow> data \<Rightarrow> 's \<Rightarrow> response \<times> 's"
  Delete :: "string \<Rightarrow> 's \<Rightarrow> response \<times> 's"

datatype call = ReadCall string | WriteCall string data | DeleteCall string

record 's world =
  remote :: 's
  calls :: "call list"

definition Logical_Read :: "'s Client \<Rightarrow> string \<Rightarrow> 's world \<Rightarrow> response \<times> 's world" where
  "Logical_Read c path w =
     (case Read c path (remote w) of
        (r, s') \<Rightarrow> (r, \<lparr>remote = s', calls = calls w @ [ReadCall path]\<rparr>))"

definition Logical_Write :: "'s Client \<Rightarrow> string \<Rightarrow> data \<Rightarrow> 's world \<Rightarrow> response \<times> 's world" where
  "Logical_Write c path body w =
     (case Write c path body (remote w) of
        (r, s') \<Rightarrow> (r, \<lparr>remote = s', calls = calls w @ [WriteCall path body]\<rparr>))"

definition Logical_Delete :: "'s Client \<Rightarrow> string \<Rightarrow> 's world \<Rightarrow> response \<times> 's world" where
  "Logical_Delete c path w =
     (case Delete c path (remote w) of
        (r, s') \<Rightarrow> (r, \<lparr>remote = s', calls = calls w @ [DeleteCall path]\<rparr>))"

subsection \<open>Paths\<close>

definition identityGroupPath :: string where
  "identityGroupPath = ''/identity/group''"

definition identityGroupNamePath :: "string \<Rightarrow> string" where
  "identityGroupNamePath name = identityGroupPath @ ''/name/'' @ name"

definition identityGroupIDPath :: "string \<Rightarrow> string" where
  "identityGroupIDPath id' = identityGroupPath @ ''/id/'' @ id'"

subsection \<open>The handlers\<close>

definition identityGroupUpdateFields :: "ResourceData \<Rightarrow> data \<Rightarrow> data" where
  "identityGroupUpdateFields d data =
     (let data1 = (case d_GetOk d ''policies'' of
                     (policies, ok) \<Rightarrow> if ok then data(''policies'' \<mapsto> policies) else data);
          data2 = (case d_GetOk d ''member_entity_ids'' of
                     (memberEntityIDs, ok) \<Rightarrow>
                       if ok then data1(''member_entity_ids'' \<mapsto> memberEntityIDs) else data1);
          data3 = (case d_GetOk d ''member_group_ids'' of
                     (memberGroupIDs, ok) \<Rightarrow>
                       if ok then data2(''member_group_ids'' \<mapsto> memberGroupIDs) else data2)
      in (case d_GetOk d ''metadata'' of
            (metadata, ok) \<Rightarrow> if ok then data3(''metadata'' \<mapsto> metadata) else data3))"

text \<open>The attributes that \<^verbatim>\<open>identityGroupUpdateFields\<close> may copy into a payload.\<close>

definition optional_fields :: "string set" where
  "optional_fields = {''metadata'', ''policies'', ''member_group_ids'', ''member_entity_ids''}"

text \<open>The loop of \<^verbatim>\<open>identityGroupRead\<close>: \<^verbatim>\<open>d.Set(k, resp.Data[k])\<close> for each key in turn.\<close>

fun set_each :: "string list \<Rightarrow> data \<Rightarrow> ResourceData \<Rightarrow> ResourceData" where
  "set_each [] m d = d"
| "set_each (k # ks) m d = set_each ks m (d_Set d k (index m k))"

definition refreshed :: "string list" where
  "refreshed = [''name'', ''type'', ''metadata'', ''member_entity_ids'', ''member_group_ids'']"

text \<open>
  \<^verbatim>\<open>isExpiredTokenErr\<close> is defined elsewhere in the package; the handlers that reach it
  take it as their first argument.
\<close>

definition identityGroupRead ::
  "(api_error \<Rightarrow> bool) \<Rightarrow> 's Client \<Rightarrow> ResourceData \<Rightarrow> 's world
     \<Rightarrow> error option result \<times> ResourceData \<times> 's world" where
  "identityGroupRead isExpiredTokenErr client d w =
     (let id' = d_Id d;
          path = identityGroupIDPath id'
      in case Logical_Read client path w of
           (Inl err, w') \<Rightarrow>
             if isExpiredTokenErr err then (Return None, d, w')
             else (Return (Some (Errorf
                     ''error reading AppRole auth backend role SecretID %q: %s'' [Q id', S err])),
                   d, w')
         | (Inr None, w') \<Rightarrow> (Return None, d_SetId d [], w')
         | (Inr (Some resp), w') \<Rightarrow> (Return None, set_each refreshed (Data resp) d, w'))"

definition identityGroupCreate ::
  "(api_error \<Rightarrow> bool) \<Rightarrow> 's Client \<Rightarrow> ResourceData \<Rightarrow> 's world
     \<Rightarrow> error option result \<times> ResourceData \<times> 's world" where
  "identityGroupCreate isExpiredTokenErr client d w =
     (case assert_string (d_Get d ''name'') of
        Panic f \<Rightarrow> (Panic f, d, w)
      | Return name \<Rightarrow>
     (case assert_string (d_Get d ''type'') of
        Panic f \<Rightarrow> (Panic f, d, w)
      | Return typeValue \<Rightarrow>
     (let path = identityGroupPath;
          data = identityGroupUpdateFields d
                   [''name'' \<mapsto> VStr name, ''type'' \<mapsto> VStr typeValue]
      in case Logical_Write client path data w of
           (Inl err, w') \<Rightarrow>
             (Return (Some (Errorf ''error writing IdentityGroup to %q: %s'' [Q name, S err])),
              d, w')
         | (Inr None, w') \<Rightarrow> (Panic NilPointerDereference, d, w')
         | (Inr (Some resp), w') \<Rightarrow>
             (let d1 = d_Set d ''id'' (index (Data resp) ''id'')
              in case assert_string (index (Data resp) ''id'') of
                   Panic f \<Rightarrow> (Panic f, d1, w')
                 | Return newId \<Rightarrow>
                     identityGroupRead isExpiredTokenErr client (d_SetId d1 newId) w'))))"

definition identityGroupUpdate ::
  "(api_error \<Rightarrow> bool) \<Rightarrow> 's Client \<Rightarrow> ResourceData \<Rightarrow> 's world
     \<Rightarrow> error option result \<times> ResourceData \<times> 's world" where
  "identityGroupUpdate isExpiredTokenErr client d w =
     (let id' = d_Id d;
          path = identityGroupIDPath id';
          data = identityGroupUpdateFields d Map.empty
      in case Logical_Write client path data w of
           (Inl err, w') \<Rightarrow>
             (Return (Some (Errorf ''error updating IdentityGroup %q: %s'' [Q id', S err])), d, w')
         | (Inr _, w') \<Rightarrow> identityGroupRead isExpiredTokenErr client d w')"

definition identityGroupDelete ::
  "'s Client \<Rightarrow> ResourceData \<Rightarrow> 's world \<Rightarrow> error option result \<times> ResourceData \<times> 's world" where
  "identityGroupDelete client d w =
     (let id' = d_Id d;
          path = identityGroupIDPath id'
      in case Logical_Delete client path w of
           (Inl err, w') \<Rightarrow> (Return (Some (Errorf ''error IdentityGroup %q'' [Q id'])), d, w')
         | (Inr _, w') \<Rightarrow> (Return None, d, w'))"

definition identityGroupExists ::
  "'s Client \<Rightarrow> ResourceData \<Rightarrow> 's world
     \<Rightarrow> (bool \<times> error option) result \<times> ResourceData \<times> 's world" where
  "identityGroupExists client d w =
     (let id' = d_Id d
      in case (if length id' = 0
               then (case assert_string (d_Get d ''name'') of
                       Panic f \<Rightarrow> Panic f
                     | Return key \<Rightarrow> Return (key, identityGroupNamePath key))
               else Return (id', identityGroupIDPath id')) of
           Panic f \<Rightarrow> (Panic f, d, w)
         | Return (key, path) \<Rightarrow>
             (case Logical_Read client path w of
                (Inl err, w') \<Rightarrow>
                  (Return (True, Some (Errorf ''error checking if IdentityGroup %q exists: %s''
                                         [Q key, S err])), d, w')
              | (Inr resp, w') \<Rightarrow> (Return (resp \<noteq> None, None), d, w')))"

subsection \<open>Sample clients, resources and responses\<close>

text \<open>A client over a trivial store that answers every read, write and delete the same way.\<close>

definition fixed_client :: "response \<Rightarrow> response \<Rightarrow> response \<Rightarrow> unit Client" where
  "fixed_client r wr dl =
     \<lparr>Read = (\<lambda>path s. (r, s)), Write = (\<lambda>path body s. (wr, s)), Delete = (\<lambda>path s. (dl, s))\<rparr>"

definition start :: "unit world" where
  "start = \<lparr>remote = (), calls = []\<rparr>"

text \<open>A group \<^verbatim>\<open>g1\<close> of type \<^verbatim>\<open>internal\<close> with one policy, tracked under the id \<^verbatim>\<open>abc\<close>.\<close>

definition g1 :: ResourceData where
  "g1 = \<lparr>rid = ''abc'',
         attrs = (\<lambda>k. VNil)(''name'' := VStr ''g1'', ''type'' := VStr ''internal'',
                            ''policies'' := VList [VStr ''p1''],
                            ''metadata'' := VMap [(''team'', VStr ''ops'')])\<rparr>"

text \<open>What Vault may answer for it: renamed, other policies, no metadata, no members.\<close>

definition found :: Secret where
  "found = \<lparr>Data = [''id'' \<mapsto> VStr ''abc'', ''name'' \<mapsto> VStr ''g2'',
                    ''type'' \<mapsto> VStr ''internal'', ''policies'' \<mapsto> VList [VStr ''p9'']]\<rparr>"

text \<open>The same group before it is created: no id yet, nothing optional set.\<close>

definition fresh :: ResourceData where
  "fresh = \<lparr>rid = [], attrs = (\<lambda>k. VNil)(''name'' := VStr ''g1'', ''type'' := VStr ''internal'')\<rparr>"

text \<open>A response to the create write that carries no \<^verbatim>\<open>id\<close>.\<close>

definition no_id :: Secret where
  "no_id = \<lparr>Data = [''name'' \<mapsto> VStr ''g1'', ''type'' \<mapsto> VStr ''internal'']\<rparr>"

definition denied :: api_error where
  "denied = ApiError ''permission denied''"

definition never_expired :: "api_error \<Rightarrow> bool" where
  "never_expired e = False"

definition always_expired :: "api_error \<Rightarrow> bool" where
  "always_expired e = True"

section \<open>Auxiliary facts\<close>

lemma rid_set_each: "rid (set_each ks m d) = rid d"
  by (induction ks arbitrary: d) (simp_all add: d_Set_def)

lemma attrs_set_each:
  "attrs (set_each ks m d) k = (if k \<in> set ks then index m k else attrs d k)"
  by (induction ks arbitrary: d) (simp_all add: d_Set_def)

lemma read_attrs:
  "attrs (fst (snd (identityGroupRead isExp client d w))) k =
     (case fst (Read client (identityGroupIDPath (rid d)) (remote w)) of
        Inr (Some resp) \<Rightarrow> (if k \<in> set refreshed then index (Data resp) k else attrs d k)
      | _ \<Rightarrow> attrs d k)"
  by (simp add: identityGroupRead_def Logical_Read_def d_Id_def d_SetId_def attrs_set_each Let_def
      split: prod.splits sum.splits option.splits)



lemma updateFields_apply:
  "identityGroupUpdateFields d m k =
     (if k \<in> optional_fields \<and> snd (d_GetOk d k) then Some (fst (d_GetOk d k)) else m k)"
  by (simp add: identityGroupUpdateFields_def optional_fields_def Let_def split: prod.splits)

lemma GetOk_fst: "k \<in> optional_fields \<Longrightarrow> fst (d_GetOk d k) = d_Get d k"
  by (auto simp add: d_GetOk_def optional_fields_def Schema_def)

lemma updateFields_dom:
  "dom (identityGroupUpdateFields d m) = dom m \<union> {k \<in> optional_fields. snd (d_GetOk d k)}"
  by (auto simp add: updateFields_apply dom_def)

lemma GetOk_sent:
  assumes "k \<in> optional_fields" "snd (d_GetOk d k)" "Schema k = Some t"
  shows "d_Get d k \<noteq> Zero t \<and> d_Get d k \<noteq> VNil"
  using assms by (auto simp add: d_GetOk_def d_Get_def split: if_splits)

lemma create_trace:
  assumes "d_Get d ''name'' = VStr name" "d_Get d ''type'' = VStr typeValue"
    and "body = identityGroupUpdateFields d [''name'' \<mapsto> VStr name, ''type'' \<mapsto> VStr typeValue]"
  shows "calls (snd (snd (identityGroupCreate isExp client d w))) =
     calls w @ WriteCall identityGroupPath body #
       (case fst (Write client identityGroupPath body (remote w)) of
          Inr (Some resp) \<Rightarrow>
            (case index (Data resp) ''id'' of
               VStr newId \<Rightarrow> [ReadCall (identityGroupIDPath newId)]
             | _ \<Rightarrow> [])
        | _ \<Rightarrow> [])"
  using assms
  by (simp add: identityGroupCreate_def assert_string_def Logical_Write_def Let_def
      identityGroupRead_def Logical_Read_def d_Id_def d_SetId_def d_Set_def
      split: prod.splits sum.splits option.splits result.splits val.splits)

lemma update_trace:
  assumes "body = identityGroupUpdateFields d Map.empty"
  shows "calls (snd (snd (identityGroupUpdate isExp client d w))) =
     calls w @ WriteCall (identityGroupIDPath (rid d)) body #
       (case fst (Write client (identityGroupIDPath (rid d)) body (remote w)) of
          Inl err \<Rightarrow> []
        | Inr resp \<Rightarrow> [ReadCall (identityGroupIDPath (rid d))])"
  using assms
  by (simp add: identityGroupUpdate_def Logical_Write_def Let_def d_Id_def
      identityGroupRead_def Logical_Read_def
      split: prod.splits sum.splits option.splits result.splits)

lemma delete_trace:
  "calls (snd (snd (identityGroupDelete client d w))) =
     calls w @ [DeleteCall (identityGroupIDPath (rid d))]"
  by (simp add: identityGroupDelete_def Logical_Delete_def Let_def d_Id_def
      split: prod.splits sum.splits)

lemma exists_by_id:
  assumes "rid d \<noteq> []"
    and "Read client (identityGroupIDPath (rid d)) (remote w) = (r, s')"
  shows "identityGroupExists client d w =
     ((case r of
         Inl err \<Rightarrow> Return (True, Some (Errorf ''error checking if IdentityGroup %q exists: %s''
                                          [Q (rid d), S err]))
       | Inr resp \<Rightarrow> Return (resp \<noteq> None, None)),
      d, \<lparr>remote = s', calls = calls w @ [ReadCall (identityGroupIDPath (rid d))]\<rparr>)"
  using assms
  by (simp add: identityGroupExists_def Logical_Read_def d_Id_def Let_def split: sum.splits)

lemma exists_by_name:
  assumes "rid d = []"
    and "d_Get d ''name'' = VStr name"
    and "Read client (identityGroupNamePath name) (remote w) = (r, s')"
  shows "identityGroupExists client d w =
     ((case r of
         Inl err \<Rightarrow> Return (True, Some (Errorf ''error checking if IdentityGroup %q exists: %s''
                                          [Q name, S err]))
       | Inr resp \<Rightarrow> Return (resp \<noteq> None, None)),
      d, \<lparr>remote = s', calls = calls w @ [ReadCall (identityGroupNamePath name)]\<rparr>)"
  using assms
  by (simp add: identityGroupExists_def Logical_Read_def d_Id_def assert_string_def Let_def
      split: sum.splits)

lemma name_path_not_id_path: "identityGroupNamePath name \<noteq> identityGroupIDPath x"
  by (simp add: identityGroupNamePath_def identityGroupIDPath_def)

lemma create_result:
  assumes "d_Get d ''name'' = VStr name" "d_Get d ''type'' = VStr typeValue"
    and "body = identityGroupUpdateFields d [''name'' \<mapsto> VStr name, ''type'' \<mapsto> VStr typeValue]"
    and "Write client identityGroupPath body (remote w) = (r, s')"
  shows "fst (identityGroupCreate isExp client d w) =
     (case r of
        Inl err \<Rightarrow> Return (Some (Errorf ''error writing IdentityGroup to %q: %s'' [Q name, S err]))
      | Inr None \<Rightarrow> Panic NilPointerDereference
      | Inr (Some resp) \<Rightarrow>
          (case index (Data resp) ''id'' of
             VStr newId \<Rightarrow>
               fst (identityGroupRead isExp client (d_SetId (d_Set d ''id'' (VStr newId)) newId)
                      \<lparr>remote = s', calls = calls w @ [WriteCall identityGroupPath body]\<rparr>)
           | _ \<Rightarrow> Panic TypeAssertion))"
  using assms
  by (simp add: identityGroupCreate_def assert_string_def Logical_Write_def Let_def
      split: sum.splits option.splits val.splits)

lemma delete_result:
  "fst (identityGroupDelete client d w) =
     (case fst (Delete client (identityGroupIDPath (rid d)) (remote w)) of
        Inl err \<Rightarrow> Return (Some (Errorf ''error IdentityGroup %q'' [Q (rid d)]))
      | Inr resp \<Rightarrow> Return None)"
  by (simp add: identityGroupDelete_def Logical_Delete_def d_Id_def Let_def
      split: prod.splits sum.splits)

section \<open>Reading\<close>

text \<open>
  C1. When the read of the id-addressed path succeeds with a nil response,
  \<^verbatim>\<open>identityGroupRead\<close> sets the tracked id to the empty string, touches nothing else
  of the resource data, and returns no error.
\<close>

theorem read_nil_response_clears_id:
  assumes "Read client (identityGroupIDPath (rid d)) (remote w) = (Inr None, s')"
  shows "identityGroupRead isExpiredTokenErr client d w =
           (Return None, d\<lparr>rid := []\<rparr>,
            \<lparr>remote = s', calls = calls w @ [ReadCall (identityGroupIDPath (rid d))]\<rparr>)"
  using assms
  by (simp add: identityGroupRead_def Logical_Read_def d_Id_def d_SetId_def)

theorem read_nil_response_clears_id_witness:
  "Read (fixed_client (Inr None) (Inr None) (Inr None)) (identityGroupIDPath (rid g1)) (remote start)
     = (Inr None, ())
   \<and> identityGroupRead never_expired (fixed_client (Inr None) (Inr None) (Inr None)) g1 start =
       (Return None, g1\<lparr>rid := []\<rparr>,
        \<lparr>remote = (), calls = calls start @ [ReadCall (identityGroupIDPath (rid g1))]\<rparr>)"
proof -
  have h: "Read (fixed_client (Inr None) (Inr None) (Inr None)) (identityGroupIDPath (rid g1))
             (remote start) = (Inr None, ())"
    by (simp add: fixed_client_def)
  from h read_nil_response_clears_id [OF h] show ?thesis by simp
qed

text \<open>
  C3. When the read of the id-addressed path fails and \<^verbatim>\<open>isExpiredTokenErr\<close> classifies
  the error as an expired credential, \<^verbatim>\<open>identityGroupRead\<close> returns no error and leaves
  the resource data exactly as it was: no attribute and not the id is changed.
\<close>

theorem read_expired:
  assumes "Read client (identityGroupIDPath (rid d)) (remote w) = (Inl err, s')"
    and "isExpiredTokenErr err"
  shows "identityGroupRead isExpiredTokenErr client d w =
           (Return None, d,
            \<lparr>remote = s', calls = calls w @ [ReadCall (identityGroupIDPath (rid d))]\<rparr>)"
  using assms by (simp add: identityGroupRead_def Logical_Read_def d_Id_def)

theorem read_expired_witness:
  "Read (fixed_client (Inl denied) (Inr None) (Inr None)) (identityGroupIDPath (rid g1)) (remote start)
     = (Inl denied, ())
   \<and> always_expired denied
   \<and> identityGroupRead always_expired (fixed_client (Inl denied) (Inr None) (Inr None)) g1 start =
       (Return None, g1,
        \<lparr>remote = (), calls = calls start @ [ReadCall (identityGroupIDPath (rid g1))]\<rparr>)"
proof -
  have h1: "Read (fixed_client (Inl denied) (Inr None) (Inr None)) (identityGroupIDPath (rid g1))
             (remote start) = (Inl denied, ())"
    by (simp add: fixed_client_def)
  have h2: "always_expired denied"
    by (simp add: always_expired_def)
  from h1 h2 read_expired [of "fixed_client (Inl denied) (Inr None) (Inr None)" g1 start denied "()"
      always_expired]
  show ?thesis by simp
qed

text \<open>
  C7. Whatever Vault answers, \<^verbatim>\<open>identityGroupRead\<close> leaves the attribute \<^verbatim>\<open>policies\<close> as
  it was; an attribute whose value differs after the read is one of \<^verbatim>\<open>name\<close>, \<^verbatim>\<open>type\<close>,
  \<^verbatim>\<open>metadata\<close>, \<^verbatim>\<open>member_entity_ids\<close>, \<^verbatim>\<open>member_group_ids\<close>.
\<close>

theorem read_keeps_policies:
  "attrs (fst (snd (identityGroupRead isExpiredTokenErr client d w))) ''policies''
     = attrs d ''policies''
   \<and> (attrs (fst (snd (identityGroupRead isExpiredTokenErr client d w))) k \<noteq> attrs d k \<longrightarrow>
        k \<in> {''name'', ''type'', ''metadata'', ''member_entity_ids'', ''member_group_ids''})"
  by (simp add: read_attrs refreshed_def split: sum.splits option.splits)

theorem read_keeps_policies_witness:
  "attrs (fst (snd (identityGroupRead never_expired
            (fixed_client (Inr (Some found)) (Inr None) (Inr None)) g1 start))) ''policies''
     = VList [VStr ''p1'']
   \<and> attrs (fst (snd (identityGroupRead never_expired
            (fixed_client (Inr (Some found)) (Inr None) (Inr None)) g1 start))) ''name''
       \<noteq> attrs g1 ''name''
   \<and> ''name'' \<in> {''name'', ''type'', ''metadata'', ''member_entity_ids'', ''member_group_ids''}"
proof -
  have h: "attrs (fst (snd (identityGroupRead never_expired
            (fixed_client (Inr (Some found)) (Inr None) (Inr None)) g1 start))) ''name''
       \<noteq> attrs g1 ''name''"
    by (simp add: identityGroupRead_def Logical_Read_def fixed_client_def d_Id_def refreshed_def
        d_Set_def index_def found_def g1_def start_def)
  have p: "attrs g1 ''policies'' = VList [VStr ''p1'']"
    by (simp add: g1_def)
  from read_keeps_policies [of never_expired "fixed_client (Inr (Some found)) (Inr None) (Inr None)"
      g1 start "''name''"] h p
  show ?thesis by simp
qed



section \<open>Writing\<close>

text \<open>
  C2. The write that \<^verbatim>\<open>identityGroupCreate\<close> issues goes to \<^verbatim>\<open>/identity/group\<close> with a
  payload whose keys are exactly \<^verbatim>\<open>name\<close>, \<^verbatim>\<open>type\<close> and those of \<^verbatim>\<open>metadata\<close>,
  \<^verbatim>\<open>policies\<close>, \<^verbatim>\<open>member_group_ids\<close>, \<^verbatim>\<open>member_entity_ids\<close> that \<^verbatim>\<open>d.GetOk\<close> reports as
  set; a key that is sent carries the attribute's value, which is neither nil nor the empty
  value of its type. The write that \<^verbatim>\<open>identityGroupUpdate\<close> issues goes to the id-addressed
  path with exactly the set optional attributes, and never \<^verbatim>\<open>name\<close> or \<^verbatim>\<open>type\<close>.
\<close>

theorem write_payloads:
  "(d_Get d ''name'' = VStr name \<and> d_Get d ''type'' = VStr typeValue \<longrightarrow>
      (\<exists>body rest.
         calls (snd (snd (identityGroupCreate isExpiredTokenErr client d w))) =
           calls w @ WriteCall ''/identity/group'' body # rest
         \<and> dom body = {''name'', ''type''} \<union> {k \<in> optional_fields. snd (d_GetOk d k)}
         \<and> body ''name'' = Some (VStr name) \<and> body ''type'' = Some (VStr typeValue)
         \<and> (\<forall>k \<in> optional_fields. snd (d_GetOk d k) \<longrightarrow>
               body k = Some (d_Get d k) \<and> body k \<noteq> Some VNil
               \<and> body k \<noteq> Some (case Schema k of Some t \<Rightarrow> Zero t | None \<Rightarrow> VNil))))
   \<and> (\<exists>body rest.
         calls (snd (snd (identityGroupUpdate isExpiredTokenErr client d w))) =
           calls w @ WriteCall (''/identity/group/id/'' @ rid d) body # rest
         \<and> dom body = {k \<in> optional_fields. snd (d_GetOk d k)}
         \<and> ''name'' \<notin> dom body \<and> ''type'' \<notin> dom body
         \<and> (\<forall>k \<in> optional_fields. snd (d_GetOk d k) \<longrightarrow>
               body k = Some (d_Get d k) \<and> body k \<noteq> Some VNil
               \<and> body k \<noteq> Some (case Schema k of Some t \<Rightarrow> Zero t | None \<Rightarrow> VNil)))"
proof -
  have sent: "m' k = Some (d_Get d k) \<and> m' k \<noteq> Some VNil
              \<and> m' k \<noteq> Some (case Schema k of Some t \<Rightarrow> Zero t | None \<Rightarrow> VNil)"
    if "m' = identityGroupUpdateFields d m" "k \<in> optional_fields" "snd (d_GetOk d k)"
    for m m' k
  proof -
    from that(2) obtain t where t: "Schema k = Some t"
      by (auto simp add: optional_fields_def Schema_def)
    from GetOk_sent [OF that(2,3) t] that t show ?thesis
      by (simp add: updateFields_apply GetOk_fst)
  qed
  have create: "\<exists>body rest.
         calls (snd (snd (identityGroupCreate isExpiredTokenErr client d w))) =
           calls w @ WriteCall ''/identity/group'' body # rest
         \<and> dom body = {''name'', ''type''} \<union> {k \<in> optional_fields. snd (d_GetOk d k)}
         \<and> body ''name'' = Some (VStr name) \<and> body ''type'' = Some (VStr typeValue)
         \<and> (\<forall>k \<in> optional_fields. snd (d_GetOk d k) \<longrightarrow>
               body k = Some (d_Get d k) \<and> body k \<noteq> Some VNil
               \<and> body k \<noteq> Some (case Schema k of Some t \<Rightarrow> Zero t | None \<Rightarrow> VNil))"
    if n: "d_Get d ''name'' = VStr name" and t: "d_Get d ''type'' = VStr typeValue"
  proof -
    define body where
      "body = identityGroupUpdateFields d [''name'' \<mapsto> VStr name, ''type'' \<mapsto> VStr typeValue]"
    have 1: "\<exists>rest. calls (snd (snd (identityGroupCreate isExpiredTokenErr client d w))) =
           calls w @ WriteCall ''/identity/group'' body # rest"
      using create_trace [OF n t body_def, of isExpiredTokenErr client w]
      by (simp add: identityGroupPath_def)
    have 2: "dom body = {''name'', ''type''} \<union> {k \<in> optional_fields. snd (d_GetOk d k)}"
      by (auto simp add: body_def updateFields_dom)
    have 3: "body ''name'' = Some (VStr name) \<and> body ''type'' = Some (VStr typeValue)"
      by (simp add: body_def updateFields_apply optional_fields_def)
    from 1 2 3 sent [OF body_def] show ?thesis by blast
  qed
  have update: "\<exists>body rest.
         calls (snd (snd (identityGroupUpdate isExpiredTokenErr client d w))) =
           calls w @ WriteCall (''/identity/group/id/'' @ rid d) body # rest
         \<and> dom body = {k \<in> optional_fields. snd (d_GetOk d k)}
         \<and> ''name'' \<notin> dom body \<and> ''type'' \<notin> dom body
         \<and> (\<forall>k \<in> optional_fields. snd (d_GetOk d k) \<longrightarrow>
               body k = Some (d_Get d k) \<and> body k \<noteq> Some VNil
               \<and> body k \<noteq> Some (case Schema k of Some t \<Rightarrow> Zero t | None \<Rightarrow> VNil))"
  proof -
    define body where "body = identityGroupUpdateFields d Map.empty"
    have 1: "\<exists>rest. calls (snd (snd (identityGroupUpdate isExpiredTokenErr client d w))) =
           calls w @ WriteCall (''/identity/group/id/'' @ rid d) body # rest"
      using update_trace [OF body_def, of isExpiredTokenErr client w]
      by (simp add: identityGroupIDPath_def identityGroupPath_def)
    have 2: "dom body = {k \<in> optional_fields. snd (d_GetOk d k)}"
      by (simp add: body_def updateFields_dom)
    have 3: "''name'' \<notin> dom body \<and> ''type'' \<notin> dom body"
      by (simp add: 2 optional_fields_def)
    from 1 2 3 sent [OF body_def] show ?thesis by blast
  qed
  from create update show ?thesis by blast
qed


theorem write_payloads_witness:
  "d_Get g1 ''name'' = VStr ''g1'' \<and> d_Get g1 ''type'' = VStr ''internal''
   \<and> snd (d_GetOk g1 ''policies'') \<and> \<not> snd (d_GetOk g1 ''member_group_ids'')
   \<and> (\<exists>body rest.
         calls (snd (snd (identityGroupCreate never_expired
                  (fixed_client (Inr (Some found)) (Inr (Some found)) (Inr None)) g1 start))) =
           WriteCall ''/identity/group'' body # rest
         \<and> body ''name'' = Some (VStr ''g1'') \<and> body ''type'' = Some (VStr ''internal'')
         \<and> body ''policies'' = Some (VList [VStr ''p1''])
         \<and> ''member_group_ids'' \<notin> dom body)
   \<and> (\<exists>body rest.
         calls (snd (snd (identityGroupUpdate never_expired
                  (fixed_client (Inr (Some found)) (Inr (Some found)) (Inr None)) g1 start))) =
           WriteCall ''/identity/group/id/abc'' body # rest
         \<and> body ''policies'' = Some (VList [VStr ''p1''])
         \<and> ''member_group_ids'' \<notin> dom body
         \<and> ''name'' \<notin> dom body \<and> ''type'' \<notin> dom body)"
proof -
  have h: "d_Get g1 ''name'' = VStr ''g1'' \<and> d_Get g1 ''type'' = VStr ''internal''"
    by (simp add: d_Get_def Schema_def g1_def)
  have p: "snd (d_GetOk g1 ''policies'')"
    by (simp add: d_GetOk_def d_Get_def Schema_def g1_def)
  have pv: "d_Get g1 ''policies'' = VList [VStr ''p1'']"
    by (simp add: d_Get_def Schema_def g1_def)
  have m: "\<not> snd (d_GetOk g1 ''member_group_ids'')"
    by (simp add: d_GetOk_def d_Get_def Schema_def g1_def)
  have po: "''policies'' \<in> optional_fields"
    by (simp add: optional_fields_def)
  have s: "calls start = []" by (simp add: start_def)
  have r: "rid g1 = ''abc''" by (simp add: g1_def)
  note t = write_payloads [of g1 "''g1''" "''internal''" never_expired
      "fixed_client (Inr (Some found)) (Inr (Some found)) (Inr None)" start]
  from mp [OF conjunct1 [OF t] h] obtain body where "\<exists>rest.
         calls (snd (snd (identityGroupCreate never_expired
                  (fixed_client (Inr (Some found)) (Inr (Some found)) (Inr None)) g1 start))) =
           calls start @ WriteCall ''/identity/group'' body # rest
         \<and> dom body = {''name'', ''type''} \<union> {k \<in> optional_fields. snd (d_GetOk g1 k)}
         \<and> body ''name'' = Some (VStr ''g1'') \<and> body ''type'' = Some (VStr ''internal'')
         \<and> (\<forall>k \<in> optional_fields. snd (d_GetOk g1 k) \<longrightarrow>
               body k = Some (d_Get g1 k) \<and> body k \<noteq> Some VNil
               \<and> body k \<noteq> Some (case Schema k of Some t \<Rightarrow> Zero t | None \<Rightarrow> VNil))" ..
  then obtain rest where call: "
         calls (snd (snd (identityGroupCreate never_expired
                  (fixed_client (Inr (Some found)) (Inr (Some found)) (Inr None)) g1 start))) =
           calls start @ WriteCall ''/identity/group'' body # rest
         \<and> dom body = {''name'', ''type''} \<union> {k \<in> optional_fields. snd (d_GetOk g1 k)}
         \<and> body ''name'' = Some (VStr ''g1'') \<and> body ''type'' = Some (VStr ''internal'')
         \<and> (\<forall>k \<in> optional_fields. snd (d_GetOk g1 k) \<longrightarrow>
               body k = Some (d_Get g1 k) \<and> body k \<noteq> Some VNil
               \<and> body k \<noteq> Some (case Schema k of Some t \<Rightarrow> Zero t | None \<Rightarrow> VNil))" ..
  note c = call [THEN conjunct1]
  note cd = call [THEN conjunct2, THEN conjunct1]
  note cn = call [THEN conjunct2, THEN conjunct2, THEN conjunct1]
    call [THEN conjunct2, THEN conjunct2, THEN conjunct2, THEN conjunct1]
  note cs = call [THEN conjunct2, THEN conjunct2, THEN conjunct2, THEN conjunct2]
  from cs [rule_format, OF po p, THEN conjunct1]
  have cp: "body ''policies'' = Some (VList [VStr ''p1''])"
    by (simp only: pv)
  from cd m have cm: "''member_group_ids'' \<notin> dom body"
    by simp
  from c have c': "calls (snd (snd (identityGroupCreate never_expired
                  (fixed_client (Inr (Some found)) (Inr (Some found)) (Inr None)) g1 start))) =
           WriteCall ''/identity/group'' body # rest"
    by (simp add: s)
  from conjunct2 [OF t] obtain ubody where "\<exists>rest.
         calls (snd (snd (identityGroupUpdate never_expired
                  (fixed_client (Inr (Some found)) (Inr (Some found)) (Inr None)) g1 start))) =
           calls start @ WriteCall (''/identity/group/id/'' @ rid g1) ubody # rest
         \<and> dom ubody = {k \<in> optional_fields. snd (d_GetOk g1 k)}
         \<and> ''name'' \<notin> dom ubody \<and> ''type'' \<notin> dom ubody
         \<and> (\<forall>k \<in> optional_fields. snd (d_GetOk g1 k) \<longrightarrow>
               ubody k = Some (d_Get g1 k) \<and> ubody k \<noteq> Some VNil
               \<and> ubody k \<noteq> Some (case Schema k of Some t \<Rightarrow> Zero t | None \<Rightarrow> VNil))" ..
  then obtain urest where ucall: "
         calls (snd (snd (identityGroupUpdate never_expired
                  (fixed_client (Inr (Some found)) (Inr (Some found)) (Inr None)) g1 start))) =
           calls start @ WriteCall (''/identity/group/id/'' @ rid g1) ubody # urest
         \<and> dom ubody = {k \<in> optional_fields. snd (d_GetOk g1 k)}
         \<and> ''name'' \<notin> dom ubody \<and> ''type'' \<notin> dom ubody
         \<and> (\<forall>k \<in> optional_fields. snd (d_GetOk g1 k) \<longrightarrow>
               ubody k = Some (d_Get g1 k) \<and> ubody k \<noteq> Some VNil
               \<and> ubody k \<noteq> Some (case Schema k of Some t \<Rightarrow> Zero t | None \<Rightarrow> VNil))" ..
  note u = ucall [THEN conjunct1]
  note ud = ucall [THEN conjunct2, THEN conjunct1]
  note un = ucall [THEN conjunct2, THEN conjunct2, THEN conjunct1]
    ucall [THEN conjunct2, THEN conjunct2, THEN conjunct2, THEN conjunct1]
  note us = ucall [THEN conjunct2, THEN conjunct2, THEN conjunct2, THEN conjunct2]
  from us [rule_format, OF po p, THEN conjunct1]
  have up: "ubody ''policies'' = Some (VList [VStr ''p1''])"
    by (simp only: pv)
  from ud m have um: "''member_group_ids'' \<notin> dom ubody"
    by simp
  from u have u': "calls (snd (snd (identityGroupUpdate never_expired
                  (fixed_client (Inr (Some found)) (Inr (Some found)) (Inr None)) g1 start))) =
           WriteCall ''/identity/group/id/abc'' ubody # urest"
    by (simp add: s r)
  have C: "\<exists>body rest.
         calls (snd (snd (identityGroupCreate never_expired
                  (fixed_client (Inr (Some found)) (Inr (Some found)) (Inr None)) g1 start))) =
           WriteCall ''/identity/group'' body # rest
         \<and> body ''name'' = Some (VStr ''g1'') \<and> body ''type'' = Some (VStr ''internal'')
         \<and> body ''policies'' = Some (VList [VStr ''p1''])
         \<and> ''member_group_ids'' \<notin> dom body"
    using c' cn cp cm by (intro exI conjI)
  have U: "\<exists>body rest.
         calls (snd (snd (identityGroupUpdate never_expired
                  (fixed_client (Inr (Some found)) (Inr (Some found)) (Inr None)) g1 start))) =
           WriteCall ''/identity/group/id/abc'' body # rest
         \<and> body ''policies'' = Some (VList [VStr ''p1''])
         \<and> ''member_group_ids'' \<notin> dom body
         \<and> ''name'' \<notin> dom body \<and> ''type'' \<notin> dom body"
    using u' up um un by (intro exI conjI)
  show ?thesis
    by (intro conjI) (rule conjunct1 [OF h], rule conjunct2 [OF h], rule p, rule m, rule C, rule U)
qed

text \<open>
  C8. With \<^verbatim>\<open>name\<close> and \<^verbatim>\<open>type\<close> being strings, \<^verbatim>\<open>identityGroupCreate\<close> returns the
  error \<^verbatim>\<open>error writing IdentityGroup to %q: %s\<close>, built from the name and the client's
  error, when the write fails. When the write succeeds with a nil response it panics on a nil
  pointer dereference, and when the response's data holds no string under \<^verbatim>\<open>id\<close> it panics
  on the type assertion: nothing guards either case.
\<close>

theorem create_write_failures:
  assumes "d_Get d ''name'' = VStr name" and "d_Get d ''type'' = VStr typeValue"
    and "Write client ''/identity/group''
           (identityGroupUpdateFields d [''name'' \<mapsto> VStr name, ''type'' \<mapsto> VStr typeValue])
           (remote w) = (r, s')"
  shows "(\<forall>err. r = Inl err \<longrightarrow>
            fst (identityGroupCreate isExpiredTokenErr client d w) =
              Return (Some (Errorf ''error writing IdentityGroup to %q: %s'' [Q name, S err])))
    \<and> (r = Inr None \<longrightarrow>
          fst (identityGroupCreate isExpiredTokenErr client d w) = Panic NilPointerDereference)
    \<and> (\<forall>resp. r = Inr (Some resp) \<and> (\<forall>newId. Data resp ''id'' \<noteq> Some (VStr newId)) \<longrightarrow>
          fst (identityGroupCreate isExpiredTokenErr client d w) = Panic TypeAssertion)"
proof -
  from assms(3) have w: "Write client identityGroupPath
           (identityGroupUpdateFields d [''name'' \<mapsto> VStr name, ''type'' \<mapsto> VStr typeValue])
           (remote w) = (r, s')"
    by (simp add: identityGroupPath_def)
  note c = create_result [OF assms(1,2) refl w, of isExpiredTokenErr]
  have 1: "fst (identityGroupCreate isExpiredTokenErr client d w) =
              Return (Some (Errorf ''error writing IdentityGroup to %q: %s'' [Q name, S err]))"
    if "r = Inl err" for err
    using c that by simp
  have 2: "fst (identityGroupCreate isExpiredTokenErr client d w) = Panic NilPointerDereference"
    if "r = Inr None"
    using c that by simp
  have 3: "fst (identityGroupCreate isExpiredTokenErr client d w) = Panic TypeAssertion"
    if "r = Inr (Some resp)" "\<forall>newId. Data resp ''id'' \<noteq> Some (VStr newId)" for resp
  proof -
    from that(2) have "\<forall>newId. index (Data resp) ''id'' \<noteq> VStr newId"
      by (auto simp add: index_def split: option.splits)
    with c that(1) show ?thesis
      by (simp split: val.splits)
  qed
  from 1 2 3 show ?thesis by blast
qed


theorem create_write_failures_witness:
  "d_Get fresh ''name'' = VStr ''g1'' \<and> d_Get fresh ''type'' = VStr ''internal''
   \<and> (\<forall>newId. Data no_id ''id'' \<noteq> Some (VStr newId))
   \<and> fst (identityGroupCreate never_expired (fixed_client (Inr None) (Inl denied) (Inr None))
            fresh start) =
        Return (Some (Errorf ''error writing IdentityGroup to %q: %s'' [Q ''g1'', S denied]))
   \<and> fst (identityGroupCreate never_expired (fixed_client (Inr None) (Inr None) (Inr None))
            fresh start) = Panic NilPointerDereference
   \<and> fst (identityGroupCreate never_expired (fixed_client (Inr None) (Inr (Some no_id)) (Inr None))
            fresh start) = Panic TypeAssertion"
proof -
  have n: "d_Get fresh ''name'' = VStr ''g1''"
    by (simp add: fresh_def d_Get_def Schema_def)
  have t: "d_Get fresh ''type'' = VStr ''internal''"
    by (simp add: fresh_def d_Get_def Schema_def)
  have i: "\<forall>newId. Data no_id ''id'' \<noteq> Some (VStr newId)"
    by (simp add: no_id_def)
  have wr: "Write (fixed_client (Inr None) x (Inr None)) ''/identity/group''
           (identityGroupUpdateFields fresh
              [''name'' \<mapsto> VStr ''g1'', ''type'' \<mapsto> VStr ''internal''])
           (remote start) = (x, ())" for x
    by (simp add: fixed_client_def)
  from create_write_failures [OF n t wr [of "Inl denied"], of never_expired]
  have 1: "fst (identityGroupCreate never_expired (fixed_client (Inr None) (Inl denied) (Inr None))
            fresh start) =
        Return (Some (Errorf ''error writing IdentityGroup to %q: %s'' [Q ''g1'', S denied]))"
    by simp
  from create_write_failures [OF n t wr [of "Inr None"], of never_expired]
  have 2: "fst (identityGroupCreate never_expired (fixed_client (Inr None) (Inr None) (Inr None))
            fresh start) = Panic NilPointerDereference"
    by simp
  from create_write_failures [OF n t wr [of "Inr (Some no_id)"], of never_expired] i
  have 3: "fst (identityGroupCreate never_expired
            (fixed_client (Inr None) (Inr (Some no_id)) (Inr None)) fresh start) = Panic TypeAssertion"
    by simp
  from n t i 1 2 3 show ?thesis by simp
qed

text \<open>
  C6. \<^verbatim>\<open>identityGroupUpdate\<close> does not always issue exactly one remote call: when its
  write succeeds it goes on to \<^verbatim>\<open>identityGroupRead\<close>, as this run with two calls shows.
\<close>

theorem update_one_call_counterexample:
  "length (calls (snd (snd (identityGroupUpdate never_expired
             (fixed_client (Inr (Some found)) (Inr None) (Inr None)) g1 start))))
     \<noteq> length (calls start) + 1"
  by (simp add: update_trace [OF refl] fixed_client_def start_def)

text \<open>
  C6, as the code has it. \<^verbatim>\<open>identityGroupDelete\<close> issues exactly one remote call, the
  delete of the id-addressed path. \<^verbatim>\<open>identityGroupUpdate\<close> issues its write to the
  id-addressed path and nothing more when the write fails; when it succeeds, a read of the same
  path follows, two calls in all. \<^verbatim>\<open>identityGroupCreate\<close> issues its write to
  \<^verbatim>\<open>/identity/group\<close>, followed by a read of the new id's path when the write succeeds with
  a string \<^verbatim>\<open>id\<close> in the response, and by nothing otherwise.
\<close>

theorem remote_call_counts:
  "calls (snd (snd (identityGroupDelete client d w))) =
       calls w @ [DeleteCall (identityGroupIDPath (rid d))]
   \<and> length (calls (snd (snd (identityGroupDelete client d w)))) = length (calls w) + 1
   \<and> calls (snd (snd (identityGroupUpdate isExpiredTokenErr client d w))) =
       calls w @ WriteCall (identityGroupIDPath (rid d)) (identityGroupUpdateFields d Map.empty) #
         (case fst (Write client (identityGroupIDPath (rid d))
                      (identityGroupUpdateFields d Map.empty) (remote w)) of
            Inl err \<Rightarrow> []
          | Inr resp \<Rightarrow> [ReadCall (identityGroupIDPath (rid d))])
   \<and> length (calls (snd (snd (identityGroupUpdate isExpiredTokenErr client d w)))) =
       length (calls w) +
         (case fst (Write client (identityGroupIDPath (rid d))
                      (identityGroupUpdateFields d Map.empty) (remote w)) of
            Inl err \<Rightarrow> 1
          | Inr resp \<Rightarrow> 2)
   \<and> (d_Get d ''name'' = VStr name \<and> d_Get d ''type'' = VStr typeValue \<longrightarrow>
        calls (snd (snd (identityGroupCreate isExpiredTokenErr client d w))) =
          calls w @ WriteCall identityGroupPath
              (identityGroupUpdateFields d
                 [''name'' \<mapsto> VStr name, ''type'' \<mapsto> VStr typeValue]) #
            (case fst (Write client identityGroupPath
                         (identityGroupUpdateFields d
                            [''name'' \<mapsto> VStr name, ''type'' \<mapsto> VStr typeValue]) (remote w)) of
               Inr (Some resp) \<Rightarrow>
                 (case index (Data resp) ''id'' of
                    VStr newId \<Rightarrow> [ReadCall (identityGroupIDPath newId)]
                  | _ \<Rightarrow> [])
             | _ \<Rightarrow> [])
        \<and> length (calls (snd (snd (identityGroupCreate isExpiredTokenErr client d w)))) =
          length (calls w) +
            (case fst (Write client identityGroupPath
                         (identityGroupUpdateFields d
                            [''name'' \<mapsto> VStr name, ''type'' \<mapsto> VStr typeValue]) (remote w)) of
               Inr (Some resp) \<Rightarrow> (case index (Data resp) ''id'' of VStr newId \<Rightarrow> 2 | _ \<Rightarrow> 1)
             | _ \<Rightarrow> 1))"
proof -
  have del: "calls (snd (snd (identityGroupDelete client d w))) =
       calls w @ [DeleteCall (identityGroupIDPath (rid d))]"
    by (rule delete_trace)
  have del_n: "length (calls (snd (snd (identityGroupDelete client d w)))) = length (calls w) + 1"
    by (simp add: del)
  have upd: "calls (snd (snd (identityGroupUpdate isExpiredTokenErr client d w))) =
       calls w @ WriteCall (identityGroupIDPath (rid d)) (identityGroupUpdateFields d Map.empty) #
         (case fst (Write client (identityGroupIDPath (rid d))
                      (identityGroupUpdateFields d Map.empty) (remote w)) of
            Inl err \<Rightarrow> []
          | Inr resp \<Rightarrow> [ReadCall (identityGroupIDPath (rid d))])"
    by (rule update_trace [OF refl])
  have upd_n: "length (calls (snd (snd (identityGroupUpdate isExpiredTokenErr client d w)))) =
       length (calls w) +
         (case fst (Write client (identityGroupIDPath (rid d))
                      (identityGroupUpdateFields d Map.empty) (remote w)) of
            Inl err \<Rightarrow> 1
          | Inr resp \<Rightarrow> 2)"
    by (simp add: upd split: sum.splits)
  have cre: "calls (snd (snd (identityGroupCreate isExpiredTokenErr client d w))) =
          calls w @ WriteCall identityGroupPath
              (identityGroupUpdateFields d
                 [''name'' \<mapsto> VStr name, ''type'' \<mapsto> VStr typeValue]) #
            (case fst (Write client identityGroupPath
                         (identityGroupUpdateFields d
                            [''name'' \<mapsto> VStr name, ''type'' \<mapsto> VStr typeValue]) (remote w)) of
               Inr (Some resp) \<Rightarrow>
                 (case index (Data resp) ''id'' of
                    VStr newId \<Rightarrow> [ReadCall (identityGroupIDPath newId)]
                  | _ \<Rightarrow> [])
             | _ \<Rightarrow> [])
        \<and> length (calls (snd (snd (identityGroupCreate isExpiredTokenErr client d w)))) =
          length (calls w) +
            (case fst (Write client identityGroupPath
                         (identityGroupUpdateFields d
                            [''name'' \<mapsto> VStr name, ''type'' \<mapsto> VStr typeValue]) (remote w)) of
               Inr (Some resp) \<Rightarrow> (case index (Data resp) ''id'' of VStr newId \<Rightarrow> 2 | _ \<Rightarrow> 1)
             | _ \<Rightarrow> 1)"
    if "d_Get d ''name'' = VStr name \<and> d_Get d ''type'' = VStr typeValue"
  proof -
    from that have n: "d_Get d ''name'' = VStr name" and t: "d_Get d ''type'' = VStr typeValue"
      by simp_all
    note c = create_trace [OF n t refl, of isExpiredTokenErr client w]
    have l: "length (calls (snd (snd (identityGroupCreate isExpiredTokenErr client d w)))) =
          length (calls w) +
            (case fst (Write client identityGroupPath
                         (identityGroupUpdateFields d
                            [''name'' \<mapsto> VStr name, ''type'' \<mapsto> VStr typeValue]) (remote w)) of
               Inr (Some resp) \<Rightarrow> (case index (Data resp) ''id'' of VStr newId \<Rightarrow> 2 | _ \<Rightarrow> 1)
             | _ \<Rightarrow> 1)"
      by (simp add: c split: sum.splits option.splits val.splits)
    from c l show ?thesis by (rule conjI)
  qed
  show ?thesis
    by (intro conjI impI) (rule del, rule del_n, rule upd, rule upd_n,
        erule cre [THEN conjunct1], erule cre [THEN conjunct2])
qed


theorem remote_call_counts_witness:
  "d_Get fresh ''name'' = VStr ''g1'' \<and> d_Get fresh ''type'' = VStr ''internal''
   \<and> calls (snd (snd (identityGroupDelete
               (fixed_client (Inr (Some found)) (Inr (Some found)) (Inr None)) g1 start))) =
        [DeleteCall ''/identity/group/id/abc'']
   \<and> calls (snd (snd (identityGroupUpdate never_expired
               (fixed_client (Inr (Some found)) (Inr (Some found)) (Inr None)) g1 start))) =
        [WriteCall ''/identity/group/id/abc'' (identityGroupUpdateFields g1 Map.empty),
         ReadCall ''/identity/group/id/abc'']
   \<and> calls (snd (snd (identityGroupUpdate never_expired
               (fixed_client (Inr (Some found)) (Inl denied) (Inr None)) g1 start))) =
        [WriteCall ''/identity/group/id/abc'' (identityGroupUpdateFields g1 Map.empty)]
   \<and> calls (snd (snd (identityGroupCreate never_expired
               (fixed_client (Inr (Some found)) (Inr (Some found)) (Inr None)) fresh start))) =
        [WriteCall ''/identity/group''
           (identityGroupUpdateFields fresh
              [''name'' \<mapsto> VStr ''g1'', ''type'' \<mapsto> VStr ''internal'']),
         ReadCall ''/identity/group/id/abc'']
   \<and> calls (snd (snd (identityGroupCreate never_expired
               (fixed_client (Inr (Some found)) (Inl denied) (Inr None)) fresh start))) =
        [WriteCall ''/identity/group''
           (identityGroupUpdateFields fresh
              [''name'' \<mapsto> VStr ''g1'', ''type'' \<mapsto> VStr ''internal''])]
   \<and> length (calls (snd (snd (identityGroupCreate never_expired
               (fixed_client (Inr (Some found)) (Inr (Some no_id)) (Inr None)) fresh start)))) = 1"
proof -
  have h: "d_Get fresh ''name'' = VStr ''g1'' \<and> d_Get fresh ''type'' = VStr ''internal''"
    by (simp add: d_Get_def Schema_def fresh_def)
  have s: "calls start = []" by (simp add: start_def)
  have r: "rid g1 = ''abc''" by (simp add: g1_def)
  have i: "index (Data found) ''id'' = VStr ''abc''" by (simp add: index_def found_def)
  have j: "index (Data no_id) ''id'' = VNil" by (simp add: index_def no_id_def)
  have p: "identityGroupIDPath ''abc'' = ''/identity/group/id/abc''"
    "identityGroupPath = ''/identity/group''"
    by (simp_all add: identityGroupIDPath_def identityGroupPath_def)
  have wr: "fst (Write (fixed_client x y z) q b u) = y" for x y z q b and u :: unit
    by (simp add: fixed_client_def)
  note t1 = remote_call_counts [of "fixed_client (Inr (Some found)) (Inr (Some found)) (Inr None)"
      g1 start never_expired "''g1''" "''internal''"]
  note t2 = remote_call_counts [of "fixed_client (Inr (Some found)) (Inl denied) (Inr None)"
      g1 start never_expired "''g1''" "''internal''"]
  note t3 = remote_call_counts [of "fixed_client (Inr (Some found)) (Inr (Some found)) (Inr None)"
      fresh start never_expired "''g1''" "''internal''"]
  note t4 = remote_call_counts [of "fixed_client (Inr (Some found)) (Inl denied) (Inr None)"
      fresh start never_expired "''g1''" "''internal''"]
  note t5 = remote_call_counts [of "fixed_client (Inr (Some found)) (Inr (Some no_id)) (Inr None)"
      fresh start never_expired "''g1''" "''internal''"]
  from t1 [THEN conjunct1] have d1: "calls (snd (snd (identityGroupDelete
               (fixed_client (Inr (Some found)) (Inr (Some found)) (Inr None)) g1 start))) =
        [DeleteCall ''/identity/group/id/abc'']"
    by (simp add: s r p)
  from t1 [THEN conjunct2, THEN conjunct2, THEN conjunct1]
  have u2: "calls (snd (snd (identityGroupUpdate never_expired
               (fixed_client (Inr (Some found)) (Inr (Some found)) (Inr None)) g1 start))) =
        [WriteCall ''/identity/group/id/abc'' (identityGroupUpdateFields g1 Map.empty),
         ReadCall ''/identity/group/id/abc'']"
    by (simp add: s r p wr)
  from t2 [THEN conjunct2, THEN conjunct2, THEN conjunct1]
  have u1: "calls (snd (snd (identityGroupUpdate never_expired
               (fixed_client (Inr (Some found)) (Inl denied) (Inr None)) g1 start))) =
        [WriteCall ''/identity/group/id/abc'' (identityGroupUpdateFields g1 Map.empty)]"
    by (simp add: s r p wr)
  note last = conjunct2 [THEN conjunct2, THEN conjunct2, THEN conjunct2]
  from mp [OF t3 [THEN last] h, THEN conjunct1]
  have c2: "calls (snd (snd (identityGroupCreate never_expired
               (fixed_client (Inr (Some found)) (Inr (Some found)) (Inr None)) fresh start))) =
        [WriteCall ''/identity/group''
           (identityGroupUpdateFields fresh
              [''name'' \<mapsto> VStr ''g1'', ''type'' \<mapsto> VStr ''internal'']),
         ReadCall ''/identity/group/id/abc'']"
    by (simp add: s p wr i)
  from mp [OF t4 [THEN last] h, THEN conjunct1]
  have c1: "calls (snd (snd (identityGroupCreate never_expired
               (fixed_client (Inr (Some found)) (Inl denied) (Inr None)) fresh start))) =
        [WriteCall ''/identity/group''
           (identityGroupUpdateFields fresh
              [''name'' \<mapsto> VStr ''g1'', ''type'' \<mapsto> VStr ''internal''])]"
    by (simp add: s p wr)
  from mp [OF t5 [THEN last] h, THEN conjunct2]
  have c0: "length (calls (snd (snd (identityGroupCreate never_expired
               (fixed_client (Inr (Some found)) (Inr (Some no_id)) (Inr None)) fresh start)))) = 1"
    by (simp add: s wr j)
  show ?thesis
    by (intro conjI) (rule h [THEN conjunct1], rule h [THEN conjunct2], rule d1, rule u2, rule u1,
        rule c2, rule c1, rule c0)
qed

section \<open>Deleting\<close>

text \<open>
  C9. \<^verbatim>\<open>identityGroupDelete\<close> on the group \<^verbatim>\<open>abc\<close>, with a client whose delete fails: the
  error returned is \<^verbatim>\<open>error IdentityGroup %q\<close> with the id alone. It is the same for two
  different causes, so it does not carry the client's error.
\<close>

theorem delete_error_omits_cause:
  "fst (identityGroupDelete (fixed_client (Inr None) (Inr None) (Inl (ApiError ''permission denied'')))
          g1 start) = Return (Some (Errorf ''error IdentityGroup %q'' [Q ''abc'']))
   \<and> fst (identityGroupDelete (fixed_client (Inr None) (Inr None) (Inl (ApiError ''connection refused'')))
          g1 start) = Return (Some (Errorf ''error IdentityGroup %q'' [Q ''abc'']))"
  by (simp add: delete_result fixed_client_def g1_def)

section \<open>Existence\<close>

text \<open>
  C4. With a non-empty id, \<^verbatim>\<open>identityGroupExists\<close> issues one read, of
  \<^verbatim>\<open>/identity/group/id/{id}\<close>. With an empty id and the string \<^verbatim>\<open>name\<close> as the name
  attribute, it issues one read, of \<^verbatim>\<open>/identity/group/name/{name}\<close>, and no read of an
  id-addressed path.
\<close>

theorem exists_probe_path:
  "(rid d \<noteq> [] \<longrightarrow>
      calls (snd (snd (identityGroupExists client d w))) =
        calls w @ [ReadCall (''/identity/group/id/'' @ rid d)])
   \<and> (rid d = [] \<and> d_Get d ''name'' = VStr name \<longrightarrow>
      calls (snd (snd (identityGroupExists client d w))) =
        calls w @ [ReadCall (''/identity/group/name/'' @ name)]
      \<and> (\<forall>x. ReadCall (identityGroupIDPath x) \<notin>
             set (drop (length (calls w)) (calls (snd (snd (identityGroupExists client d w)))))))"
proof -
  have a: "calls (snd (snd (identityGroupExists client d w))) =
        calls w @ [ReadCall (''/identity/group/id/'' @ rid d)]" if "rid d \<noteq> []"
  proof -
    obtain r s' where "Read client (identityGroupIDPath (rid d)) (remote w) = (r, s')"
      by (cases "Read client (identityGroupIDPath (rid d)) (remote w)")
    from exists_by_id [OF that this] show ?thesis
      by (simp add: identityGroupIDPath_def identityGroupPath_def)
  qed
  have b: "calls (snd (snd (identityGroupExists client d w))) =
        calls w @ [ReadCall (''/identity/group/name/'' @ name)]
      \<and> (\<forall>x. ReadCall (identityGroupIDPath x) \<notin>
             set (drop (length (calls w)) (calls (snd (snd (identityGroupExists client d w))))))"
    if "rid d = []" "d_Get d ''name'' = VStr name"
  proof -
    obtain r s' where "Read client (identityGroupNamePath name) (remote w) = (r, s')"
      by (cases "Read client (identityGroupNamePath name) (remote w)")
    from exists_by_name [OF that this]
    have c: "calls (snd (snd (identityGroupExists client d w))) =
        calls w @ [ReadCall (identityGroupNamePath name)]"
      by simp
    have "ReadCall (identityGroupIDPath x) \<notin>
             set (drop (length (calls w)) (calls (snd (snd (identityGroupExists client d w)))))"
      for x
      using name_path_not_id_path [of name x] by (simp add: c)
    with c show ?thesis
      by (simp add: identityGroupNamePath_def identityGroupPath_def)
  qed
  from a b show ?thesis by blast
qed

theorem exists_probe_path_witness:
  "rid g1 \<noteq> []
   \<and> calls (snd (snd (identityGroupExists (fixed_client (Inr None) (Inr None) (Inr None)) g1 start)))
       = [ReadCall ''/identity/group/id/abc'']
   \<and> rid fresh = [] \<and> d_Get fresh ''name'' = VStr ''g1''
   \<and> calls (snd (snd (identityGroupExists (fixed_client (Inr None) (Inr None) (Inr None)) fresh start)))
       = [ReadCall ''/identity/group/name/g1'']"
proof -
  have h1: "rid g1 \<noteq> []" by (simp add: g1_def)
  have h2: "rid fresh = [] \<and> d_Get fresh ''name'' = VStr ''g1''"
    by (simp add: fresh_def d_Get_def Schema_def)
  have r: "rid g1 = ''abc''" by (simp add: g1_def)
  have s: "calls start = []" by (simp add: start_def)
  note t1 = exists_probe_path [of g1 "fixed_client (Inr None) (Inr None) (Inr None)" start "''g1''"]
  note t2 = exists_probe_path [of fresh "fixed_client (Inr None) (Inr None) (Inr None)" start "''g1''"]
  from mp [OF conjunct1 [OF t1] h1] have c1:
    "calls (snd (snd (identityGroupExists (fixed_client (Inr None) (Inr None) (Inr None)) g1 start)))
       = [ReadCall ''/identity/group/id/abc'']"
    by (simp add: r s)
  from mp [OF conjunct2 [OF t2] h2] have c2:
    "calls (snd (snd (identityGroupExists (fixed_client (Inr None) (Inr None) (Inr None)) fresh start)))
       = [ReadCall ''/identity/group/name/g1'']"
    by (simp add: s)
  from h1 h2 c1 c2 show ?thesis by simp
qed

text \<open>
  C5. When the read that \<^verbatim>\<open>identityGroupExists\<close> issues succeeds, the handler returns
  whether the response is not nil, and no error. When it fails, the handler returns \<^verbatim>\<open>true\<close>
  together with the error \<^verbatim>\<open>error checking if IdentityGroup %q exists: %s\<close>, built from the
  key and the client's error.
\<close>

theorem exists_result:
  assumes "rid d = [] \<longrightarrow> d_Get d ''name'' = VStr name"
    and "Read client (if rid d = [] then identityGroupNamePath name else identityGroupIDPath (rid d))
           (remote w) = (r, s')"
  shows "fst (identityGroupExists client d w) =
     (case r of
        Inl err \<Rightarrow> Return (True, Some (Errorf ''error checking if IdentityGroup %q exists: %s''
                                         [Q (if rid d = [] then name else rid d), S err]))
      | Inr resp \<Rightarrow> Return (resp \<noteq> None, None))"
proof (cases "rid d = []")
  case True
  with assms have "d_Get d ''name'' = VStr name"
    and "Read client (identityGroupNamePath name) (remote w) = (r, s')"
    by simp_all
  from exists_by_name [OF True this] True show ?thesis by simp
next
  case False
  with assms have "Read client (identityGroupIDPath (rid d)) (remote w) = (r, s')"
    by simp
  from exists_by_id [OF False this] False show ?thesis by simp
qed


theorem exists_result_witness:
  "rid fresh = [] \<and> d_Get fresh ''name'' = VStr ''g1''
   \<and> fst (identityGroupExists (fixed_client (Inl denied) (Inr None) (Inr None)) fresh start) =
        Return (True, Some (Errorf ''error checking if IdentityGroup %q exists: %s''
                              [Q ''g1'', S denied]))
   \<and> fst (identityGroupExists (fixed_client (Inr (Some found)) (Inr None) (Inr None)) fresh start) =
        Return (True, None)
   \<and> fst (identityGroupExists (fixed_client (Inr None) (Inr None) (Inr None)) fresh start) =
        Return (False, None)"
proof -
  have e: "rid fresh = []" by (simp add: fresh_def)
  have n: "d_Get fresh ''name'' = VStr ''g1''"
    by (simp add: fresh_def d_Get_def Schema_def)
  from n have h: "rid fresh = [] \<longrightarrow> d_Get fresh ''name'' = VStr ''g1''"
    by simp
  have r: "Read (fixed_client x (Inr None) (Inr None))
             (if rid fresh = [] then identityGroupNamePath ''g1'' else identityGroupIDPath (rid fresh))
             (remote start) = (x, ())" for x
    by (simp add: fixed_client_def)
  from exists_result [OF h r [of "Inl denied"]] exists_result [OF h r [of "Inr (Some found)"]]
    exists_result [OF h r [of "Inr None"]] e n
  show ?thesis by simp
qed

end
